theory Spec2Isabelle
  imports
    Main
    "HOL-Library.Word"
    "HOL-Library.Char_ord"
    "HOL-Library.List_Lexorder"
    "HOL-Library.Multiset"
    "HOL-Library.Signed_Division"
    "HOL-Library.AList"
begin

section \<open>Values, logs and the simulation state\<close>

text \<open>
  Go's \<open>int\<close> is a 64-bit two's complement integer on the platforms the engine runs on:
  \<open>+\<close> wraps around and \<open>sint\<close> reads the signed value. A \<open>float64\<close> is only stored,
  passed on and formatted by this code, so it is kept as its 64-bit pattern. A
  \<open>time.Time\<close> is the reading of the clock, in nanoseconds.
\<close>

type_synonym goint = "64 word"
type_synonym float64 = "64 word"
type_synonym time = int

datatype fault = Panic string

text \<open>
  The log: what \<open>LogInput\<close> and \<open>LogOutput\<close> were given, and the lines \<open>log.Println\<close> wrote.
\<close>

datatype log_entry = Input string | Output string | Stderr string

text \<open>The values a page element holds (\<open>interface{}\<close> in the gui package).\<close>

datatype val = VString string | VInt goint | VFloat float64

record solver =
  NSteps :: goint
  Dt_si :: float64
  LastErr :: float64
  MaxErr :: float64
  MinDt :: float64
  MaxDt :: float64
  FixDt :: float64

record sim =
  Solver :: solver
  Time :: float64

section \<open>fmt.Sprint on integers\<close>

text \<open>\<open>fmt.Sprint\<close> prints an \<open>int\<close> in decimal, with a leading minus sign when negative.\<close>

definition digit :: "nat \<Rightarrow> char" where
  "digit d = char_of (48 + d)"

fun show_nat :: "nat \<Rightarrow> string" where
  "show_nat n = (if n < 10 then [digit n] else show_nat (n div 10) @ [digit (n mod 10)])"

declare show_nat.simps [simp del]

definition Sprint_int :: "int \<Rightarrow> string" where
  "Sprint_int i = (if i < 0 then CHR ''-'' # show_nat (nat (- i)) else show_nat (nat i))"

definition Sprint_goint :: "goint \<Rightarrow> string" where
  "Sprint_goint n = Sprint_int (sint n)"

section \<open>The page of the gui package\<close>

text \<open>
  \<open>gui.Page\<close> belongs to the package github.com/barnex/gui. Of a page, gui.go uses the
  value of each element (\<open>Set\<close>, \<open>StringValue\<close>) and whether the element is disabled
  (\<open>Disable\<close>). \<open>StringValue\<close> prints the element's value as \<open>fmt.Sprint\<close> does; how a
  \<open>float64\<close> prints is left to the caller (\<open>fs\<close>).
\<close>

record page =
  elems :: "string \<Rightarrow> val"
  disabled :: "string \<Rightarrow> bool"

definition Set :: "string \<Rightarrow> val \<Rightarrow> page \<Rightarrow> page" where
  "Set ident v p = p\<lparr>elems := (elems p)(ident := v)\<rparr>"

definition Disable :: "string \<Rightarrow> bool \<Rightarrow> page \<Rightarrow> page" where
  "Disable ident b p = p\<lparr>disabled := (disabled p)(ident := b)\<rparr>"

fun Sprint_val :: "(float64 \<Rightarrow> string) \<Rightarrow> val \<Rightarrow> string" where
  "Sprint_val fs (VString s) = s"
| "Sprint_val fs (VInt n) = Sprint_goint n"
| "Sprint_val fs (VFloat x) = fs x"

definition StringValue :: "(float64 \<Rightarrow> string) \<Rightarrow> page \<Rightarrow> string \<Rightarrow> string" where
  "StringValue fs p ident = Sprint_val fs (elems p ident)"

section \<open>The state of gui.go\<close>

text \<open>
  What \<open>Add\<close> receives is an \<open>interface{}\<close>; it may implement \<open>Param\<close>, \<open>Slicer\<close>, both or
  neither. The implementations live outside gui.go and are kept as opaque handles.
  A Go map holds each key once and is iterated in an order the runtime chooses: the
  registry is an association list whose order stands for that choice.
\<close>

type_synonym Param = nat
type_synonym Slicer = nat

record quantity =
  asParam :: "Param option"
  asSlicer :: "Slicer option"

record guistate =
  Page :: page
  Quants :: "(string \<times> Slicer) list"
  Params :: "(string \<times> Param) list"
  eventCacheBreaker :: goint
  busy :: bool

text \<open>
  The closures gui.go hands to the simulation thread: \<open>func() { Eval(cmd) }\<close> of the cli
  handler, the closure of the setmesh handler, and the closure of the refresh handler
  that publishes the snapshot.
\<close>

datatype command = EvalCmd string | SetMeshCmd | SnapshotCmd

text \<open>
  The world: the global \<open>GUI\<close>, the heartbeat \<open>keepalive\<close>, what has been logged, the
  simulation state, and the bridge: the commands pending in \<open>Inject\<close> (with whether a
  caller waits for them), and three instruments of the bridge: every submission made
  (\<open>submitted\<close>), every command the simulation thread has run (\<open>executed\<close>) and the number
  of waiting callers it has released (\<open>released\<close>). \<open>requests\<close> is the state kept by \<open>Req\<close>.
\<close>

record world =
  GUI :: guistate
  keepalive :: time
  requests :: goint
  logs :: "log_entry list"
  Sim :: sim
  Inject :: "(command \<times> bool) list"
  submitted :: "(command \<times> bool) list"
  executed :: "command list"
  released :: nat

section \<open>Heartbeat\<close>

text \<open>\<open>now\<close> is what \<open>time.Now()\<close> returns at the call.\<close>

definition KeepAlive :: "world \<Rightarrow> time" where
  "KeepAlive w = keepalive w"

definition updateKeepAlive :: "time \<Rightarrow> world \<Rightarrow> world" where
  "updateKeepAlive now w = w\<lparr>keepalive := now\<rparr>"


section \<open>Busy state\<close>

definition disableControls :: "bool \<Rightarrow> guistate \<Rightarrow> guistate" where
  "disableControls b g = g\<lparr>Page := Disable ''cli'' b (Page g)\<rparr>"

definition SetBusy :: "bool \<Rightarrow> time \<Rightarrow> world \<Rightarrow> world" where
  "SetBusy b now w =
     (let g1 = (GUI w)\<lparr>busy := b\<rparr>;
          g2 = disableControls b g1
      in updateKeepAlive now (w\<lparr>GUI := g2\<rparr>))"

definition Busy :: "guistate \<Rightarrow> bool" where
  "Busy g = busy g"

section \<open>Collaborators outside gui.go\<close>

text \<open>
  A compiled unit is what \<open>World.Compile\<close> returns: it can be formatted and evaluated.
  Evaluating it runs the script: it may log, change the simulation state, and panic.
\<close>

record tree =
  tree_Format :: string
  tree_Eval :: "log_entry list \<times> sim \<Rightarrow> fault option \<times> log_entry list \<times> sim"

text \<open>
  The environment gathers what gui.go calls and does not define: the script compiler
  (\<open>Inl\<close> carries \<open>err.Error()\<close>), \<open>fmt.Sprintf\<close> and \<open>fmt.Sprint\<close> on a \<open>float64\<close>,
  \<open>cu.MemGetInfo\<close>, \<open>World.Doc\<close>, the page's \<open>IntValue\<close> and \<open>FloatValue\<close>, the product
  \<open>x * 1e-9\<close> on \<open>float64\<close>, \<open>SetMesh\<close>, and what \<open>Req\<close> does to the state it keeps.
\<close>

record env =
  Compile :: "string \<Rightarrow> string + tree"
  Sprintf :: "string \<Rightarrow> float64 \<Rightarrow> string"
  Sprint_float :: "float64 \<Rightarrow> string"
  MemGetInfo :: "goint \<times> goint"
  Doc :: "string \<Rightarrow> string"
  IntValue :: "val \<Rightarrow> goint"
  FloatValue :: "val \<Rightarrow> float64"
  times_1e_9 :: "float64 \<Rightarrow> float64"
  SetMesh :: "goint \<Rightarrow> goint \<Rightarrow> goint \<Rightarrow> float64 \<Rightarrow> float64 \<Rightarrow> float64 \<Rightarrow> goint list
    \<Rightarrow> sim \<Rightarrow> fault option \<times> sim"
  Req_effect :: "goint \<Rightarrow> goint \<Rightarrow> goint"

text \<open>
  Modelled from the spec: \<open>LogInput\<close> is declared outside gui.go; the spec (section 6) gives
  it as \<open>LogInput(text)\<close>, with no return value, never failing.
\<close>

definition LogInput :: "string \<Rightarrow> world \<Rightarrow> world" where
  "LogInput s w = w\<lparr>logs := logs w @ [Input s]\<rparr>"

text \<open>
  Modelled from the spec: \<open>LogOutput\<close> is declared outside gui.go; the spec (section 6) gives
  it as \<open>LogOutput(text)\<close>, with no return value, never failing.
\<close>

definition LogOutput :: "string \<Rightarrow> world \<Rightarrow> world" where
  "LogOutput s w = w\<lparr>logs := logs w @ [Output s]\<rparr>"

text \<open>\<open>log.Println\<close> of the standard library.\<close>

definition Println :: "string \<Rightarrow> world \<Rightarrow> world" where
  "Println s w = w\<lparr>logs := logs w @ [Stderr s]\<rparr>"

text \<open>
  \<open>Req\<close> is declared outside gui.go; gui.go brackets the refresh handler with \<open>Req(1)\<close> and
  \<open>defer Req(-1)\<close>. It acts on a state of its own, \<open>requests\<close>, as the environment says.
\<close>

definition Req :: "env \<Rightarrow> goint \<Rightarrow> world \<Rightarrow> world" where
  "Req E delta w = w\<lparr>requests := Req_effect E delta (requests w)\<rparr>"

section \<open>Eval\<close>

definition run_tree :: "tree \<Rightarrow> world \<Rightarrow> fault option \<times> world" where
  "run_tree t w =
     (case tree_Eval t (logs w, Sim w) of (f, l, s) \<Rightarrow> (f, w\<lparr>logs := l, Sim := s\<rparr>))"

text \<open>
  The result of \<open>Eval\<close> is the world it leaves and the panic, if any, that leaves it with:
  \<open>Eval\<close> has no \<open>recover\<close>.
\<close>

definition Eval :: "env \<Rightarrow> string \<Rightarrow> world \<Rightarrow> fault option \<times> world" where
  "Eval E code w =
     (case Compile E code of
        Inr t \<Rightarrow> run_tree t (LogInput (tree_Format t) w)
      | Inl err \<Rightarrow> (None, LogOutput (code @ [CHR 0x0A] @ err) w))"

section \<open>The closures injected by the handlers\<close>

definition intValues :: "env \<Rightarrow> page \<Rightarrow> string list \<Rightarrow> goint list" where
  "intValues E p ids = map (\<lambda>i. IntValue E (elems p i)) ids"

definition floatValues :: "env \<Rightarrow> page \<Rightarrow> string list \<Rightarrow> float64 list" where
  "floatValues E p ids = map (\<lambda>i. FloatValue E (elems p i)) ids"

text \<open>The closure of the refresh handler (gui.go, lines 107 to 128).\<close>

definition snapshot :: "env \<Rightarrow> world \<Rightarrow> world" where
  "snapshot E w =
     (let s = Solver (Sim w); g = GUI w; fs = Sprint_float E;
          p = Page g;
          p = Set ''nsteps'' (VInt (NSteps s)) p;
          p = Set ''time'' (VString (Sprintf E ''%6e'' (Time (Sim w)))) p;
          p = Set ''dt'' (VString (Sprintf E ''%4e'' (Dt_si s))) p;
          p = Set ''lasterr'' (VString (Sprintf E ''%3e'' (LastErr s))) p;
          p = Set ''maxerr'' (VFloat (MaxErr s)) p;
          p = Set ''mindt'' (VFloat (MinDt s)) p;
          p = Set ''maxdt'' (VFloat (MaxDt s)) p;
          p = Set ''fixdt'' (VFloat (FixDt s)) p;
          quant = StringValue fs p ''renderQuant'';
          comp = StringValue fs p ''renderComp'';
          cachebreaker = ''?'' @ StringValue fs p ''nsteps'' @ ''_''
            @ Sprint_goint (eventCacheBreaker g);
          p = Set ''display'' (VString (''/render/'' @ quant @ ''/'' @ comp @ cachebreaker)) p;
          memfree = word_of_int (sint (fst (MemGetInfo E)) sdiv (1024 * 1024));
          p = Set ''memfree'' (VInt memfree) p
      in w\<lparr>GUI := g\<lparr>Page := p\<rparr>\<rparr>)"

text \<open>The closure of the setmesh handler (lines 82 to 87); \<open>X\<close>, \<open>Y\<close>, \<open>Z\<close> are 0, 1, 2.\<close>

definition setmesh_closure :: "env \<Rightarrow> world \<Rightarrow> fault option \<times> world" where
  "setmesh_closure E w =
     (let p = Page (GUI w);
          n = intValues E p [''nx'', ''ny'', ''nz''];
          c = floatValues E p [''cx'', ''cy'', ''cz''];
          pbc = intValues E p [''px'', ''py'', ''pz''];
          (f, s) = SetMesh E (n ! 0) (n ! 1) (n ! 2)
                     (times_1e_9 E (c ! 0)) (times_1e_9 E (c ! 1)) (times_1e_9 E (c ! 2)) pbc (Sim w)
      in (f, w\<lparr>Sim := s\<rparr>))"

fun run_command :: "env \<Rightarrow> command \<Rightarrow> world \<Rightarrow> fault option \<times> world" where
  "run_command E (EvalCmd cmd) w = Eval E cmd w"
| "run_command E SetMeshCmd w = setmesh_closure E w"
| "run_command E SnapshotCmd w = (None, snapshot E w)"

section \<open>The bridge\<close>

text \<open>
  The channel \<open>Inject\<close>, \<open>InjectAndWait\<close> and the loop of the simulation thread that receives
  from \<open>Inject\<close> are declared outside gui.go; this section follows the spec (sections 4.1, 7
  and 9).
\<close>

text \<open>
  Modelled from the spec: the guarded frame of the consumer loop, which is not in gui.go.
  "Wrap every dequeued command in a guarded execution frame that converts any internal
  fault into a logged error"; the fault is "reported through the same logging
  collaborator".
\<close>

definition guarded :: "env \<Rightarrow> command \<Rightarrow> world \<Rightarrow> world" where
  "guarded E c w =
     (case run_command E c w of
        (None, w') \<Rightarrow> w'
      | (Some (Panic msg), w') \<Rightarrow> LogOutput msg w')"

text \<open>
  Modelled from the spec: one turn of the consumer loop, which is not in gui.go. The command
  is run in the guarded frame, once, and the frame "unblocks any waiter", whether the
  command faulted or not.
\<close>

definition serve :: "env \<Rightarrow> command \<times> bool \<Rightarrow> world \<Rightarrow> world" where
  "serve E cw w =
     (let w = guarded E (fst cw) w;
          w = w\<lparr>executed := executed w @ [fst cw]\<rparr>
      in if snd cw then w\<lparr>released := Suc (released w)\<rparr> else w)"

text \<open>
  Modelled from the spec: the consumer loop, which is not in gui.go. The simulation thread
  is the sole consumer and runs the pending commands in the order of their arrival.
\<close>

fun consume :: "env \<Rightarrow> (command \<times> bool) list \<Rightarrow> world \<Rightarrow> world" where
  "consume E [] w = w"
| "consume E (cw # q) w = consume E q (serve E cw w)"

text \<open>
  Modelled from the spec: the simulation thread, whose loop is not in gui.go, must
  "repeatedly drain all currently pending commands".
\<close>

definition drain :: "env \<Rightarrow> world \<Rightarrow> world" where
  "drain E w = consume E (Inject w) (w\<lparr>Inject := []\<rparr>)"

text \<open>
  Modelled from the spec: the send \<open>Inject <- f\<close> on the channel \<open>Inject\<close>, which is declared
  outside gui.go. \<open>Submit(cmd)\<close> "enqueues \<open>cmd\<close> for execution by the simulation thread and
  returns"; the queue rejects nothing.
\<close>

definition Inject_send :: "command \<Rightarrow> world \<Rightarrow> world" where
  "Inject_send c w = w\<lparr>Inject := Inject w @ [(c, False)], submitted := submitted w @ [(c, False)]\<rparr>"

text \<open>
  Modelled from the spec: \<open>InjectAndWait\<close> is declared outside gui.go. \<open>SubmitAndWait(cmd)\<close>
  "enqueues \<open>cmd\<close> and blocks the calling thread until the simulation thread has finished
  executing it": when it returns, the consumer has run what was pending before \<open>cmd\<close>,
  and \<open>cmd\<close>.
\<close>

definition InjectAndWait :: "env \<Rightarrow> command \<Rightarrow> world \<Rightarrow> world" where
  "InjectAndWait E c w =
     drain E (w\<lparr>Inject := Inject w @ [(c, True)], submitted := submitted w @ [(c, True)]\<rparr>)"

section \<open>The handlers registered by PrepareServer\<close>

definition GUI_Set :: "string \<Rightarrow> val \<Rightarrow> world \<Rightarrow> world" where
  "GUI_Set ident v w = w\<lparr>GUI := (GUI w)\<lparr>Page := Set ident v (Page (GUI w))\<rparr>\<rparr>"


definition GUI_StringValue :: "env \<Rightarrow> world \<Rightarrow> string \<Rightarrow> string" where
  "GUI_StringValue E w ident = StringValue (Sprint_float E) (Page (GUI w)) ident"


text \<open>The console (lines 62 to 66).\<close>

definition on_cli :: "env \<Rightarrow> world \<Rightarrow> world" where
  "on_cli E w =
     (let cmd = GUI_StringValue E w ''cli'';
          w = Inject_send (EvalCmd cmd) w
      in GUI_Set ''cli'' (VString []) w)"






text \<open>
  The refresh handler given to \<open>OnUpdate\<close> (lines 95 to 129); \<open>now\<close> is the reading of the
  clock that \<open>updateKeepAlive\<close> takes.
\<close>

definition OnUpdate :: "env \<Rightarrow> time \<Rightarrow> world \<Rightarrow> world" where
  "OnUpdate E now w =
     (let w = Req E 1 w;
          w = updateKeepAlive now w;
          w = (if Busy (GUI w) then Println ''gui busy'' w
               else InjectAndWait E SnapshotCmd (w\<lparr>GUI := disableControls False (GUI w)\<rparr>))
      in Req E (- 1) w)"



section \<open>The registry\<close>

definition Add :: "string \<Rightarrow> quantity \<Rightarrow> guistate \<Rightarrow> guistate" where
  "Add name v g =
     (let g = (case asParam v of Some p \<Rightarrow> g\<lparr>Params := AList.update name p (Params g)\<rparr> | None \<Rightarrow> g);
          g = (case asSlicer v of Some q \<Rightarrow> g\<lparr>Quants := AList.update name q (Quants g)\<rparr> | None \<Rightarrow> g)
      in g)"

text \<open>The global \<open>GUI\<close> as line 18 makes it; the page comes with \<open>PrepareServer\<close>.\<close>

definition GUI_init :: "page \<Rightarrow> guistate" where
  "GUI_init p = \<lparr>Page = p, Quants = [], Params = [], eventCacheBreaker = 0, busy = False\<rparr>"

text \<open>Lower case, on the letters of ASCII; a \<open>char\<close> is a byte.\<close>

definition toLower_char :: "char \<Rightarrow> char" where
  "toLower_char c = (if CHR ''A'' \<le> c \<and> c \<le> CHR ''Z'' then char_of (of_char c + (32::nat)) else c)"

definition toLower :: "string \<Rightarrow> string" where
  "toLower s = map toLower_char s"

text \<open>
  Modelled from the spec: \<open>sortNoCase\<close> is declared outside gui.go; the spec has the names
  "sorted case-insensitively by name". Go compares strings byte by byte, and so does the
  order on \<open>string\<close> here.
\<close>

definition sortNoCase :: "string list \<Rightarrow> string list" where
  "sortNoCase names = sort_key toLower names"

text \<open>\<open>QuantNames\<close> returns the names and leaves the receiver as it found it.\<close>

definition QuantNames :: "guistate \<Rightarrow> string list \<times> guistate" where
  "QuantNames g =
     (let names = map fst (Quants g);
          names = sortNoCase names
      in (names, g))"

section \<open>The httpfs client\<close>

text \<open>
  A response of \<open>net/http\<close>, as far as the client reads it. A \<open>*http.Response\<close>, a \<open>*File\<close>
  and an \<open>error\<close> can be nil: they are options.
\<close>

record response =
  StatusCode :: int
  Header :: "string \<rightharpoonup> string list"
  Body :: string

record request =
  req_method :: string
  req_url :: string
  req_body :: "string option"

record url =
  Scheme :: string
  Host :: string
  Path :: string
  RawQuery :: string

record Client =
  serverAddr :: string

record File =
  file_client :: Client
  file_u :: url
  file_name :: string
  file_fd :: "64 word"

text \<open>
  What the client calls and does not define: \<open>http.NewRequest\<close> and \<open>http.Client.Do\<close>
  (\<open>Inl\<close> carries the text of the error; when \<open>Do\<close> returns no error its response is
  not nil), \<open>url.URL.String\<close>, \<open>fmt.Fscan\<close> into an \<open>int\<close> (\<open>None\<close> when nothing was
  stored), \<open>http.Header.Get\<close>, and the constant \<open>X_ERROR\<close>.
\<close>

record httpenv =
  NewRequest :: "string \<Rightarrow> string \<Rightarrow> string option \<Rightarrow> string + request"
  Do :: "request \<Rightarrow> string + response"
  URL_String :: "url \<Rightarrow> string"
  Fscan :: "string \<Rightarrow> goint option"
  Header_Get :: "(string \<rightharpoonup> string list) \<Rightarrow> string \<Rightarrow> string"
  X_ERROR :: string

definition StatusOK :: int where
  "StatusOK = 200"

definition StatusTeapot :: int where
  "StatusTeapot = 418"

definition readUInt :: "httpenv \<Rightarrow> string \<Rightarrow> goint" where
  "readUInt H r = (case Fscan H r of None \<Rightarrow> - 1 | Some v \<Rightarrow> v)"

text \<open>\<open>panicOn(eReq)\<close> ends \<open>do\<close> in a panic when the request cannot be made.\<close>

definition do :: "httpenv \<Rightarrow> Client \<Rightarrow> string \<Rightarrow> string \<Rightarrow> string option \<Rightarrow> fault + response option" where
  "do H f method URL body =
     (case NewRequest H method URL body of
        Inl eReq \<Rightarrow> Inl (Panic eReq)
      | Inr req \<Rightarrow>
          (case Do H req of
             Inl eResp \<Rightarrow>
               Inr (Some \<lparr>StatusCode = StatusTeapot, Header = [X_ERROR H \<mapsto> [eResp]], Body = []\<rparr>)
           | Inr resp \<Rightarrow> Inr (Some resp)))"

definition OpenFile ::
  "httpenv \<Rightarrow> Client \<Rightarrow> string \<Rightarrow> goint \<Rightarrow> 32 word \<Rightarrow> fault + (File option \<times> string option)" where
  "OpenFile H f nm flag perm =
     (let u0 = \<lparr>Scheme = ''http'', Host = serverAddr f, Path = nm, RawQuery = []\<rparr>;
          q = ''flag='' @ Sprint_goint flag @ ''&perm='' @ Sprint_int (uint perm);
          u1 = u0\<lparr>RawQuery := q\<rparr>
      in case do H f ''OPEN'' (URL_String H u1) None of
           Inl p \<Rightarrow> Inl p
         | Inr None \<Rightarrow> Inl (Panic ''invalid memory address or nil pointer dereference'')
         | Inr (Some resp) \<Rightarrow>
             if StatusCode resp \<noteq> StatusOK then
               Inr (None, Some (''httpfs open '' @ [CHR 0x22] @ nm @ [CHR 0x22] @ '': status ''
                      @ Sprint_int (StatusCode resp) @ '': '' @ [CHR 0x22]
                      @ Header_Get H (Header resp) (X_ERROR H) @ [CHR 0x22]))
             else
               (let fd = readUInt H (Body resp)
                in if sint fd < 0 then
                     Inr (None, Some (''httpfs open '' @ [CHR 0x22] @ nm @ [CHR 0x22]
                            @ '': invalid argument''))
                   else
                     (let fdURL = \<lparr>Scheme = ''http'', Host = serverAddr f, Path = Sprint_goint fd,
                                     RawQuery = []\<rparr>;
                          file = \<lparr>file_client = f, file_u = fdURL, file_name = nm, file_fd = fd\<rparr>
                      in Inr (Some file, None))))"

text \<open>\<open>Open\<close>: \<open>os.O_RDONLY\<close> is 0.\<close>

definition Open :: "httpenv \<Rightarrow> Client \<Rightarrow> string \<Rightarrow> fault + (File option \<times> string option)" where
  "Open H f nm = OpenFile H f nm 0 0"

section \<open>Notions used by the properties\<close>

text \<open>
  The identifier that the snapshot stores in the element \<open>display\<close> (lines 119 to 122),
  from the quantity, the component, the printed step count and the counter.
\<close>

definition display_id :: "string \<Rightarrow> string \<Rightarrow> string \<Rightarrow> goint \<Rightarrow> string" where
  "display_id quant component nsteps ecb =
     ''/render/'' @ quant @ ''/'' @ component @ (''?'' @ nsteps @ ''_'' @ Sprint_goint ecb)"

text \<open>
  The page shows the whole snapshot of the simulation state of \<open>w\<close>: each field the
  refresh closure sets holds what the closure computes from that state.
\<close>

definition published :: "env \<Rightarrow> world \<Rightarrow> bool" where
  "published E w =
     (let p = Page (GUI w); s = Solver (Sim w); fs = Sprint_float E
      in elems p ''nsteps'' = VInt (NSteps s) \<and>
         elems p ''time'' = VString (Sprintf E ''%6e'' (Time (Sim w))) \<and>
         elems p ''dt'' = VString (Sprintf E ''%4e'' (Dt_si s)) \<and>
         elems p ''lasterr'' = VString (Sprintf E ''%3e'' (LastErr s)) \<and>
         elems p ''maxerr'' = VFloat (MaxErr s) \<and>
         elems p ''mindt'' = VFloat (MinDt s) \<and>
         elems p ''maxdt'' = VFloat (MaxDt s) \<and>
         elems p ''fixdt'' = VFloat (FixDt s) \<and>
         elems p ''display'' =
           VString (display_id (StringValue fs p ''renderQuant'') (StringValue fs p ''renderComp'')
                      (Sprint_goint (NSteps s)) (eventCacheBreaker (GUI w))) \<and>
         elems p ''memfree'' = VInt (word_of_int (sint (fst (MemGetInfo E)) sdiv (1024 * 1024))))"

text \<open>What no command run by the simulation thread touches.\<close>

definition frame ::
  "world \<Rightarrow> time \<times> goint \<times> (command \<times> bool) list \<times> bool \<times> goint
     \<times> (string \<times> Slicer) list \<times> (string \<times> Param) list \<times> (string \<Rightarrow> bool)" where
  "frame w =
     (keepalive w, requests w, submitted w, busy (GUI w), eventCacheBreaker (GUI w),
      Quants (GUI w), Params (GUI w), disabled (Page (GUI w)))"



section \<open>Concrete collaborators and states\<close>

text \<open>
  A compiler that knows three texts: \<open>steps(1)\<close> compiles to a unit that advances the step
  count, \<open>crash()\<close> to a unit that panics, and anything else is rejected.
\<close>

definition steps_tree :: tree where
  "steps_tree =
     \<lparr>tree_Format = ''steps(1)'',
      tree_Eval = (\<lambda>(l, s). (None, l, s\<lparr>Solver := (Solver s)\<lparr>NSteps := NSteps (Solver s) + 1\<rparr>\<rparr>))\<rparr>"

definition crash_tree :: tree where
  "crash_tree = \<lparr>tree_Format = ''crash()'', tree_Eval = (\<lambda>(l, s). (Some (Panic ''crash''), l, s))\<rparr>"

definition example_env :: env where
  "example_env =
     \<lparr>Compile = (\<lambda>code. if code = ''steps(1)'' then Inr steps_tree
                       else if code = ''crash()'' then Inr crash_tree
                       else Inl ''syntax error''),
      Sprintf = (\<lambda>f x. f),
      Sprint_float = (\<lambda>x. ''0''),
      MemGetInfo = (2097152, 4194304),
      Doc = (\<lambda>q. []),
      IntValue = (\<lambda>v. 0),
      FloatValue = (\<lambda>v. 0),
      times_1e_9 = (\<lambda>x. x),
      SetMesh = (\<lambda>nx ny nz cx cy cz pbc s. (None, s)),
      Req_effect = (\<lambda>delta n. n + delta)\<rparr>"

definition example_page :: page where
  "example_page = \<lparr>elems = (\<lambda>i. VString []), disabled = (\<lambda>i. False)\<rparr>"

definition example_GUI :: guistate where
  "example_GUI =
     Add ''m'' \<lparr>asParam = None, asSlicer = Some 3\<rparr>
       (Add ''B_ext'' \<lparr>asParam = Some 2, asSlicer = Some 2\<rparr>
         (Add ''alpha'' \<lparr>asParam = Some 1, asSlicer = Some 1\<rparr> (GUI_init example_page)))"

definition example_world :: world where
  "example_world =
     \<lparr>GUI = example_GUI, keepalive = 100, requests = 0, logs = [],
      Sim = \<lparr>Solver = \<lparr>NSteps = 7, Dt_si = 0, LastErr = 0, MaxErr = 0, MinDt = 0, MaxDt = 0,
                         FixDt = 0\<rparr>, Time = 0\<rparr>,
      Inject = [], submitted = [], executed = [], released = 0\<rparr>"

definition busy_world :: world where
  "busy_world = SetBusy True 100 example_world"


text \<open>
  An http layer in which the request for the URL \<open>:\<close> cannot be made (\<open>http.NewRequest\<close>
  fails to parse it), the server at \<open>down\<close> does not answer, and any other request is
  answered with 200 and the body \<open>3\<close>.
\<close>

definition example_http :: httpenv where
  "example_http =
     \<lparr>NewRequest = (\<lambda>m url b. if url = '':'' then Inl ''parse :: missing protocol scheme''
                          else Inr \<lparr>req_method = m, req_url = url, req_body = b\<rparr>),
      Do = (\<lambda>r. if req_url r = ''http://down'' then Inl ''connection refused''
                 else Inr \<lparr>StatusCode = 200, Header = Map.empty, Body = ''3''\<rparr>),
      URL_String = (\<lambda>x. Scheme x @ ''://'' @ Host x),
      Fscan = (\<lambda>b. if b = ''3'' then Some 3 else None),
      Header_Get = (\<lambda>h k. case h k of Some (x # xs) \<Rightarrow> x | _ \<Rightarrow> []),
      X_ERROR = ''X-HTTPFS-Error''\<rparr>"

text \<open>Two commands are pending: the first panics and has a waiter, the second has none.\<close>

definition crash_world :: world where
  "crash_world = example_world\<lparr>Inject := [(EvalCmd ''crash()'', True), (EvalCmd ''steps(1)'', False)]\<rparr>"

section \<open>Printing integers is injective\<close>








section \<open>The heartbeat holds the last reading\<close>


section \<open>What the commands leave alone\<close>

lemma frame_Eval: "frame (snd (Eval E code w)) = frame w"
  by (simp add: Eval_def run_tree_def LogInput_def LogOutput_def frame_def
      split: sum.splits prod.splits)

lemma frame_setmesh: "frame (snd (setmesh_closure E w)) = frame w"
  by (simp add: setmesh_closure_def Let_def frame_def split: prod.splits)

lemma frame_snapshot: "frame (snapshot E w) = frame w"
  by (simp add: snapshot_def Let_def frame_def Set_def)

lemma frame_run_command: "frame (snd (run_command E c w)) = frame w"
  by (cases c) (simp_all add: frame_Eval frame_setmesh frame_snapshot)

lemma frame_LogOutput: "frame (LogOutput m w) = frame w"
  by (simp add: LogOutput_def frame_def)

lemma frame_guarded: "frame (guarded E c w) = frame w"
proof (cases "run_command E c w")
  case (Pair f w')
  with frame_run_command[of E c w] have "frame w' = frame w" by simp
  with Pair show ?thesis
    by (simp add: guarded_def frame_LogOutput split: option.splits fault.splits)
qed

lemma frame_serve: "frame (serve E cw w) = frame w"
  using frame_guarded[of E "fst cw" w] by (simp add: serve_def Let_def frame_def)

lemma frame_consume: "frame (consume E q w) = frame w"
  by (induction q arbitrary: w) (simp_all add: frame_serve)

lemma Inject_Eval: "Inject (snd (Eval E code w)) = Inject w"
  by (simp add: Eval_def run_tree_def LogInput_def LogOutput_def split: sum.splits prod.splits)

lemma Inject_run_command: "Inject (snd (run_command E c w)) = Inject w"
  by (cases c) (simp_all add: Inject_Eval setmesh_closure_def snapshot_def Let_def split: prod.splits)

lemma executed_run_command: "executed (snd (run_command E c w)) = executed w"
  by (cases c) (simp_all add: Eval_def run_tree_def LogInput_def LogOutput_def
      setmesh_closure_def snapshot_def Let_def split: sum.splits prod.splits)

lemma released_run_command: "released (snd (run_command E c w)) = released w"
  by (cases c) (simp_all add: Eval_def run_tree_def LogInput_def LogOutput_def
      setmesh_closure_def snapshot_def Let_def split: sum.splits prod.splits)

lemma guarded_cases:
  "guarded E c w = snd (run_command E c w) \<or>
   (\<exists>m. guarded E c w = LogOutput m (snd (run_command E c w)))"
  by (cases "run_command E c w") (auto simp: guarded_def split: option.splits fault.splits)

lemma bridge_guarded:
  "Inject (guarded E c w) = Inject w \<and> executed (guarded E c w) = executed w \<and>
   released (guarded E c w) = released w"
  using guarded_cases[of E c w] Inject_run_command[of E c w] executed_run_command[of E c w]
    released_run_command[of E c w]
  by (auto simp: LogOutput_def)

lemma bridge_serve:
  "Inject (serve E cw w) = Inject w \<and> executed (serve E cw w) = executed w @ [fst cw] \<and>
   released (serve E cw w) = released w + (if snd cw then 1 else 0)"
  using bridge_guarded[of E "fst cw" w] by (simp add: serve_def Let_def)

lemma bridge_consume:
  "Inject (consume E q w) = Inject w \<and> executed (consume E q w) = executed w @ map fst q \<and>
   released (consume E q w) = released w + length (filter snd q)"
  by (induction q arbitrary: w) (simp_all add: bridge_serve)

lemma consume_append: "consume E (q @ r) w = consume E r (consume E q w)"
  by (induction q arbitrary: w) simp_all

lemma published_snapshot: "published E (snapshot E w)"
  by (simp add: published_def snapshot_def Let_def Set_def StringValue_def display_id_def)

lemma InjectAndWait_eq:
  "InjectAndWait E c w =
     serve E (c, True) (consume E (Inject w) (w\<lparr>submitted := submitted w @ [(c, True)], Inject := []\<rparr>))"
  by (simp add: InjectAndWait_def drain_def consume_append)

lemma serve_snapshot:
  "serve E (SnapshotCmd, True) w =
     (snapshot E w)\<lparr>executed := executed w @ [SnapshotCmd], released := Suc (released w)\<rparr>"
  by (simp add: serve_def guarded_def Let_def snapshot_def)

lemma published_cong:
  "GUI w' = GUI w \<Longrightarrow> Sim w' = Sim w \<Longrightarrow> published E w' = published E w"
  by (simp add: published_def)

section \<open>The refresh handler, case by case\<close>

lemma OnUpdate_when_busy:
  "Busy (GUI w) \<Longrightarrow>
     OnUpdate E now w = Req E (- 1) (Println ''gui busy'' (updateKeepAlive now (Req E 1 w)))"
  by (simp add: OnUpdate_def Let_def Busy_def Req_def updateKeepAlive_def)

lemma OnUpdate_when_idle:
  "\<not> Busy (GUI w) \<Longrightarrow>
     OnUpdate E now w =
       Req E (- 1) (InjectAndWait E SnapshotCmd
         ((updateKeepAlive now (Req E 1 w))\<lparr>GUI := disableControls False (GUI w)\<rparr>))"
  by (simp add: OnUpdate_def Let_def Busy_def Req_def updateKeepAlive_def)

lemma Busy_SetBusy: "Busy (GUI (SetBusy b t w)) = b"
  by (simp add: SetBusy_def Busy_def disableControls_def updateKeepAlive_def)

lemma frame_InjectAndWait:
  "frame (InjectAndWait E c w) = frame (w\<lparr>submitted := submitted w @ [(c, True)]\<rparr>)"
  by (simp add: InjectAndWait_eq frame_serve frame_consume) (simp add: frame_def)

lemma Eval_propagates:
  "Compile E code = Inr t \<Longrightarrow>
   fst (tree_Eval t (logs w @ [Input (tree_Format t)], Sim w)) = Some (Panic m) \<Longrightarrow>
   fst (Eval E code w) = Some (Panic m)"
  by (auto simp: Eval_def run_tree_def LogInput_def split: prod.splits)

lemma bridge_drain:
  "Inject (drain E w) = [] \<and> executed (drain E w) = executed w @ map fst (Inject w) \<and>
   released (drain E w) = released w + length (filter snd (Inject w))"
  using bridge_consume[of E "Inject w" "w\<lparr>Inject := []\<rparr>"] by (simp add: drain_def)

lemma crash_run:
  "run_command example_env (EvalCmd ''crash()'') w = (Some (Panic ''crash''), LogInput ''crash()'' w)"
  by (simp add: Eval_def example_env_def crash_tree_def run_tree_def LogInput_def)

section \<open>The cli handler\<close>

lemma on_cli_enqueues:
  "Inject (on_cli E w) = Inject w @ [(EvalCmd (GUI_StringValue E w ''cli''), False)] \<and>
   executed (on_cli E w) = executed w \<and> released (on_cli E w) = released w \<and>
   Sim (on_cli E w) = Sim w \<and> logs (on_cli E w) = logs w \<and>
   elems (Page (GUI (on_cli E w))) ''cli'' = VString []"
  by (simp add: on_cli_def Let_def Inject_send_def GUI_Set_def Set_def)

section \<open>The counter of events\<close>

lemma ecb_frame: "frame w' = frame w \<Longrightarrow> eventCacheBreaker (GUI w') = eventCacheBreaker (GUI w)"
  by (simp add: frame_def)











section \<open>The registry keeps each name once\<close>

lemma Add_distinct:
  "distinct (map fst (Quants g)) \<Longrightarrow> distinct (map fst (Quants (Add nm v g)))"
  by (simp add: Add_def Let_def distinct_update split: option.splits)

lemma Add_Quants_names:
  "fst ` set (Quants (Add nm v g)) =
     (if asSlicer v = None then fst ` set (Quants g) else insert nm (fst ` set (Quants g)))"
  by (auto simp: Add_def Let_def dom_update split: option.splits)

lemma GUI_init_distinct: "distinct (map fst (Quants (GUI_init p)))"
  by (simp add: GUI_init_def)

lemma example_Quants: "Quants example_GUI = [(''alpha'', 1), (''B_ext'', 2), (''m'', 3)]"
  by (simp add: example_GUI_def Add_def GUI_init_def Let_def)

section \<open>The httpfs client: what do and OpenFile return\<close>

lemma do_response:
  "NewRequest H method URL body = Inr req \<Longrightarrow>
     (\<exists>resp. do H f method URL body = Inr (Some resp)) \<and>
     (\<forall>eResp. Do H req = Inl eResp \<longrightarrow>
        do H f method URL body =
          Inr (Some \<lparr>StatusCode = 418, Header = [X_ERROR H \<mapsto> [eResp]], Body = []\<rparr>)) \<and>
     (\<forall>resp. Do H req = Inr resp \<longrightarrow> do H f method URL body = Inr (Some resp))"
  by (simp add: do_def StatusTeapot_def split: sum.splits)

lemma do_panics:
  "NewRequest H method URL body = Inl eReq \<Longrightarrow> do H f method URL body = Inl (Panic eReq)"
  by (simp add: do_def)

lemma do_never_nil: "do H f method URL body \<noteq> Inr None"
  by (simp add: do_def split: sum.splits)

lemma OpenFile_results:
  "OpenFile H f nm flag perm = Inr (file, err) \<Longrightarrow>
     (file = None \<longleftrightarrow> err \<noteq> None) \<and>
     (\<exists>resp. do H f ''OPEN''
          (URL_String H \<lparr>Scheme = ''http'', Host = serverAddr f, Path = nm,
             RawQuery = ''flag='' @ Sprint_goint flag @ ''&perm='' @ Sprint_int (uint perm)\<rparr>) None
          = Inr (Some resp) \<and>
        (file = None \<longleftrightarrow> StatusCode resp \<noteq> 200 \<or> sint (readUInt H (Body resp)) < 0))"
  by (auto simp: OpenFile_def Let_def StatusOK_def split: sum.splits option.splits if_splits)

lemma readUInt_negative:
  "sint (readUInt H b) < 0 \<longleftrightarrow> (case Fscan H b of None \<Rightarrow> True | Some v \<Rightarrow> sint v < 0)"
  by (simp add: readUInt_def split: option.splits)

lemma do_teapot_example:
  "do example_http \<lparr>serverAddr = ''down''\<rparr> ''OPEN'' ''http://down'' None
     = Inr (Some \<lparr>StatusCode = 418, Header = [''X-HTTPFS-Error'' \<mapsto> [''connection refused'']], Body = []\<rparr>)"
  by (simp add: do_def example_http_def StatusTeapot_def)

section \<open>The refresh handler and the busy flag\<close>

text \<open>
  Claim C1. While the busy flag is set, the refresh handler submits nothing (the record
  of submissions, the commands run and the pending commands are as before), leaves the
  page and the simulation alone and reports \<open>gui busy\<close> on the log. While it is not set,
  the handler enables the cli control and submits exactly one command, the snapshot
  closure, through \<open>InjectAndWait\<close>; the simulation thread runs it after the commands that
  were pending, and when the handler returns the page shows the whole snapshot.
\<close>

theorem OnUpdate_by_busy_flag:
  "(Busy (GUI w) \<longrightarrow>
      submitted (OnUpdate E now w) = submitted w \<and>
      executed (OnUpdate E now w) = executed w \<and>
      Inject (OnUpdate E now w) = Inject w \<and>
      GUI (OnUpdate E now w) = GUI w \<and>
      Sim (OnUpdate E now w) = Sim w \<and>
      logs (OnUpdate E now w) = logs w @ [Stderr ''gui busy'']) \<and>
   (\<not> Busy (GUI w) \<longrightarrow>
      submitted (OnUpdate E now w) = submitted w @ [(SnapshotCmd, True)] \<and>
      executed (OnUpdate E now w) = executed w @ map fst (Inject w) @ [SnapshotCmd] \<and>
      released (OnUpdate E now w) = released w + length (filter snd (Inject w)) + 1 \<and>
      Inject (OnUpdate E now w) = [] \<and>
      disabled (Page (GUI (OnUpdate E now w))) ''cli'' = False \<and>
      published E (OnUpdate E now w))"
proof (intro conjI impI)
  assume b: "Busy (GUI w)"
  then have eq: "OnUpdate E now w = Req E (- 1) (Println ''gui busy'' (updateKeepAlive now (Req E 1 w)))"
    by (simp add: OnUpdate_def Let_def Busy_def Req_def updateKeepAlive_def)
  show "submitted (OnUpdate E now w) = submitted w"
    and "executed (OnUpdate E now w) = executed w"
    and "Inject (OnUpdate E now w) = Inject w"
    and "GUI (OnUpdate E now w) = GUI w"
    and "Sim (OnUpdate E now w) = Sim w"
    and "logs (OnUpdate E now w) = logs w @ [Stderr ''gui busy'']"
    by (simp_all add: eq Req_def Println_def updateKeepAlive_def)
next
  assume nb: "\<not> Busy (GUI w)"
  define w1 where "w1 = (updateKeepAlive now (Req E 1 w))\<lparr>GUI := disableControls False (GUI w)\<rparr>"
  define w2 where "w2 = consume E (Inject w) (w1\<lparr>submitted := submitted w @ [(SnapshotCmd, True)], Inject := []\<rparr>)"
  have eq: "OnUpdate E now w = Req E (- 1) (serve E (SnapshotCmd, True) w2)"
    using nb
    by (simp add: OnUpdate_def Let_def Busy_def InjectAndWait_eq w1_def w2_def
        Req_def updateKeepAlive_def)
  have f2: "frame w2 = frame (w1\<lparr>submitted := submitted w @ [(SnapshotCmd, True)], Inject := []\<rparr>)"
    by (simp add: w2_def frame_consume)
  have b2: "Inject w2 = [] \<and> executed w2 = executed w @ map fst (Inject w) \<and>
      released w2 = released w + length (filter snd (Inject w))"
    using bridge_consume[of E "Inject w" "w1\<lparr>submitted := submitted w @ [(SnapshotCmd, True)], Inject := []\<rparr>"]
    by (simp add: w2_def w1_def Req_def updateKeepAlive_def)
  have f3: "frame (snapshot E w2) = frame w2" by (rule frame_snapshot)
  have i3: "Inject (snapshot E w2) = Inject w2" by (simp add: snapshot_def Let_def)
  show "submitted (OnUpdate E now w) = submitted w @ [(SnapshotCmd, True)]"
    using f2 f3 by (simp add: eq serve_snapshot Req_def frame_def)
  show "executed (OnUpdate E now w) = executed w @ map fst (Inject w) @ [SnapshotCmd]"
    using b2 by (simp add: eq serve_snapshot Req_def)
  show "released (OnUpdate E now w) = released w + length (filter snd (Inject w)) + 1"
    using b2 by (simp add: eq serve_snapshot Req_def)
  show "Inject (OnUpdate E now w) = []"
    using b2 i3 by (simp add: eq serve_snapshot Req_def)
  show "disabled (Page (GUI (OnUpdate E now w))) ''cli'' = False"
    using f2 f3 by (simp add: eq serve_snapshot Req_def frame_def w1_def disableControls_def
        Disable_def updateKeepAlive_def)
  have "published E (snapshot E w2)" by (rule published_snapshot)
  moreover have "published E (OnUpdate E now w) = published E (snapshot E w2)"
    by (rule published_cong) (simp_all add: eq serve_snapshot Req_def)
  ultimately show "published E (OnUpdate E now w)" by simp
qed

text \<open>
  Both cases at concrete states: a poll while busy submits nothing and logs \<open>gui busy\<close>;
  a poll of the idle example submits the snapshot closure alone.
\<close>

theorem OnUpdate_by_busy_flag_witness:
  "Busy (GUI busy_world) \<and>
   submitted (OnUpdate example_env 150 busy_world) = [] \<and>
   logs (OnUpdate example_env 150 busy_world) = [Stderr ''gui busy''] \<and>
   \<not> Busy (GUI example_world) \<and>
   submitted (OnUpdate example_env 150 example_world) = [(SnapshotCmd, True)] \<and>
   executed (OnUpdate example_env 150 example_world) = [SnapshotCmd] \<and>
   published example_env (OnUpdate example_env 150 example_world)"
proof -
  have b: "Busy (GUI busy_world)"
    by (simp add: busy_world_def SetBusy_def Busy_def disableControls_def updateKeepAlive_def)
  have s: "submitted busy_world = [] \<and> logs busy_world = []"
    by (simp add: busy_world_def SetBusy_def updateKeepAlive_def example_world_def)
  have n: "\<not> Busy (GUI example_world)"
    by (simp add: example_world_def example_GUI_def Add_def GUI_init_def Busy_def)
  have e: "submitted example_world = [] \<and> executed example_world = [] \<and> Inject example_world = []"
    by (simp add: example_world_def)
  show ?thesis
    using OnUpdate_by_busy_flag[of busy_world example_env 150]
      OnUpdate_by_busy_flag[of example_world example_env 150] b s n e
    by simp
qed

section \<open>Eval\<close>

text \<open>
  Claim C2. \<open>Eval\<close> hands the text to the compiler. When the compiler returns a unit,
  \<open>Eval\<close> logs the unit's formatted form with \<open>LogInput\<close> and then evaluates the unit, on
  the log that already holds that entry. When the compiler returns an error, \<open>Eval\<close> logs
  with \<open>LogOutput\<close> the text, a newline and the error's description, and does nothing
  else: the simulation state is as before.
\<close>

theorem Eval_compile_log_run:
  "(\<forall>t. Compile E code = Inr t \<longrightarrow>
      Eval E code w =
        (case tree_Eval t (logs w @ [Input (tree_Format t)], Sim w) of
           (f, l, s) \<Rightarrow> (f, w\<lparr>logs := l, Sim := s\<rparr>))) \<and>
   (\<forall>err. Compile E code = Inl err \<longrightarrow>
      Eval E code w = (None, w\<lparr>logs := logs w @ [Output (code @ [CHR 0x0A] @ err)]\<rparr>))"
  by (simp add: Eval_def run_tree_def LogInput_def LogOutput_def split: prod.splits)

text \<open>
  Both cases at concrete texts: \<open>steps(1)\<close> compiles, is logged and advances the step
  count from 7 to 8; \<open>m = (1, 0\<close> is rejected and only logged.
\<close>

theorem Eval_compile_log_run_witness:
  "Compile example_env ''steps(1)'' = Inr steps_tree \<and>
   logs (snd (Eval example_env ''steps(1)'' example_world)) = [Input ''steps(1)''] \<and>
   NSteps (Solver (Sim (snd (Eval example_env ''steps(1)'' example_world)))) = 8 \<and>
   Compile example_env ''m = (1, 0'' = Inl ''syntax error'' \<and>
   Eval example_env ''m = (1, 0'' example_world =
     (None, example_world\<lparr>logs := [Output (''m = (1, 0'' @ [CHR 0x0A] @ ''syntax error'')]\<rparr>)"
proof -
  have c1: "Compile example_env ''steps(1)'' = Inr steps_tree"
    by (simp add: example_env_def)
  have c2: "Compile example_env ''m = (1, 0'' = Inl ''syntax error''"
    by (simp add: example_env_def)
  have l: "logs example_world = []" by (simp add: example_world_def)
  have n: "NSteps (Solver (Sim example_world)) = 7" by (simp add: example_world_def)
  show ?thesis
    using Eval_compile_log_run[of example_env "''steps(1)''" example_world]
      Eval_compile_log_run[of example_env "''m = (1, 0''" example_world] c1 c2 l n
    by (simp add: steps_tree_def)
qed

section \<open>Faults of the commands\<close>

text \<open>
  Claim C3. A panic inside a submitted command is caught by the guarded frame of the
  simulation thread. \<open>Eval\<close> itself hands the panic of the unit on, and so does the closure
  \<open>func() { Eval(cmd) }\<close> of the cli handler; the frame turns it into a logged error. The
  thread then goes on: whatever the commands do, draining runs every pending command
  once, in order, releases every waiter and leaves nothing pending, and a caller of
  \<open>InjectAndWait\<close> is released after its command has run.
\<close>

theorem bridge_contains_faults:
  "(\<forall>t m. Compile E code = Inr t \<and>
       fst (tree_Eval t (logs w @ [Input (tree_Format t)], Sim w)) = Some (Panic m) \<longrightarrow>
       fst (run_command E (EvalCmd code) w) = Some (Panic m)) \<and>
   (\<forall>m w'. run_command E c w = (Some (Panic m), w') \<longrightarrow> guarded E c w = LogOutput m w') \<and>
   Inject (drain E w) = [] \<and>
   executed (drain E w) = executed w @ map fst (Inject w) \<and>
   released (drain E w) = released w + length (filter snd (Inject w)) \<and>
   executed (InjectAndWait E c w) = executed w @ map fst (Inject w) @ [c] \<and>
   released (InjectAndWait E c w) = released w + length (filter snd (Inject w)) + 1"
proof -
  have "executed (InjectAndWait E c w) = executed w @ map fst (Inject w) @ [c] \<and>
    released (InjectAndWait E c w) = released w + length (filter snd (Inject w)) + 1"
    using bridge_drain[of E "w\<lparr>Inject := Inject w @ [(c, True)], submitted := submitted w @ [(c, True)]\<rparr>"]
    by (simp add: InjectAndWait_def)
  then show ?thesis
    using bridge_drain[of E w] by (auto simp: guarded_def Eval_propagates)
qed

text \<open>
  A queue whose first command panics: the panic is logged, both commands are run, the
  waiter of the first is released.
\<close>

theorem bridge_contains_faults_witness:
  "Compile example_env ''crash()'' = Inr crash_tree \<and>
   fst (run_command example_env (EvalCmd ''crash()'') crash_world) = Some (Panic ''crash'') \<and>
   logs (guarded example_env (EvalCmd ''crash()'') crash_world) = [Input ''crash()'', Output ''crash''] \<and>
   executed (drain example_env crash_world) = [EvalCmd ''crash()'', EvalCmd ''steps(1)''] \<and>
   released (drain example_env crash_world) = 1 \<and>
   Inject (drain example_env crash_world) = []"
proof -
  have c: "Compile example_env ''crash()'' = Inr crash_tree" by (simp add: example_env_def)
  have f: "fst (tree_Eval crash_tree (logs crash_world @ [Input (tree_Format crash_tree)], Sim crash_world))
      = Some (Panic ''crash'')"
    by (simp add: crash_tree_def)
  have r: "run_command example_env (EvalCmd ''crash()'') crash_world
      = (Some (Panic ''crash''), LogInput ''crash()'' crash_world)"
    by (rule crash_run)
  have l: "logs crash_world = [] \<and> executed crash_world = [] \<and> released crash_world = 0 \<and>
      Inject crash_world = [(EvalCmd ''crash()'', True), (EvalCmd ''steps(1)'', False)]"
    by (simp add: crash_world_def example_world_def)
  show ?thesis
    using bridge_contains_faults[of example_env "''crash()''" crash_world "EvalCmd ''crash()''"] c f r l
    by (simp add: LogOutput_def LogInput_def)
qed

section \<open>The cache breaker\<close>




section \<open>SetBusy\<close>

text \<open>
  Claim C5. After \<open>SetBusy(b)\<close>, for either value of \<open>b\<close> and from any state, the busy flag
  is \<open>b\<close>, the cli control is disabled exactly when \<open>b\<close> is true, and the heartbeat holds
  the reading of the clock taken by the call.
\<close>

theorem SetBusy_effect:
  "Busy (GUI (SetBusy b now w)) = b \<and>
   disabled (Page (GUI (SetBusy b now w))) ''cli'' = b \<and>
   KeepAlive (SetBusy b now w) = now"
  by (simp add: SetBusy_def Busy_def disableControls_def Disable_def updateKeepAlive_def KeepAlive_def)

section \<open>The heartbeat\<close>



section \<open>The names of the quantities\<close>

text \<open>
  Claim C8. For a registry that holds each name once, as a Go map does, \<open>QuantNames\<close>
  returns exactly the registered names, each once, in an order that is sorted when case
  is ignored, and leaves the registry as it was.
\<close>

theorem QuantNames_sorted_names:
  "distinct (map fst (Quants g)) \<Longrightarrow>
     set (fst (QuantNames g)) = fst ` set (Quants g) \<and>
     distinct (fst (QuantNames g)) \<and>
     length (fst (QuantNames g)) = length (Quants g) \<and>
     sorted (map toLower (fst (QuantNames g))) \<and>
     snd (QuantNames g) = g"
  by (simp add: QuantNames_def Let_def sortNoCase_def)

text \<open>
  A registry with the names \<open>alpha\<close>, \<open>B_ext\<close> and \<open>m\<close>: byte order alone would put
  \<open>B_ext\<close> first.
\<close>

theorem QuantNames_sorted_names_witness:
  "distinct (map fst (Quants example_GUI)) \<and>
   fst (QuantNames example_GUI) = [''alpha'', ''B_ext'', ''m''] \<and>
   set (fst (QuantNames example_GUI)) = fst ` set (Quants example_GUI) \<and>
   distinct (fst (QuantNames example_GUI)) \<and>
   sorted (map toLower (fst (QuantNames example_GUI))) \<and>
   snd (QuantNames example_GUI) = example_GUI"
proof -
  have d: "distinct (map fst (Quants example_GUI))" by (simp add: example_Quants)
  have v: "fst (QuantNames example_GUI) = [''alpha'', ''B_ext'', ''m'']" by code_simp
  show ?thesis using QuantNames_sorted_names[OF d] d v by simp
qed

section \<open>The heartbeat on every poll\<close>

text \<open>
  Claim C9. The refresh handler stores the reading of the clock in the heartbeat on every
  poll, whatever the busy flag: also when the flag is set, where nothing is submitted
  and the page is left as it was.
\<close>

theorem OnUpdate_heartbeat:
  "KeepAlive (OnUpdate E now w) = now \<and>
   KeepAlive (OnUpdate E now (SetBusy True t w)) = now \<and>
   submitted (OnUpdate E now (SetBusy True t w)) = submitted w \<and>
   GUI (OnUpdate E now (SetBusy True t w)) = GUI (SetBusy True t w)"
proof -
  have k: "KeepAlive (OnUpdate E now x) = now" for x
  proof (cases "Busy (GUI x)")
    case True
    then show ?thesis
      by (simp add: OnUpdate_when_busy Req_def updateKeepAlive_def Println_def KeepAlive_def)
  next
    case False
    define x1 where "x1 = (updateKeepAlive now (Req E 1 x))\<lparr>GUI := disableControls False (GUI x)\<rparr>"
    have "OnUpdate E now x = Req E (- 1) (InjectAndWait E SnapshotCmd x1)"
      using False by (simp add: OnUpdate_when_idle x1_def)
    moreover have "keepalive (InjectAndWait E SnapshotCmd x1) = keepalive x1"
      using frame_InjectAndWait[of E SnapshotCmd x1] by (simp add: frame_def)
    ultimately show ?thesis
      by (simp add: KeepAlive_def Req_def x1_def updateKeepAlive_def)
  qed
  have b: "Busy (GUI (SetBusy True t w))" by (simp add: Busy_SetBusy)
  have s: "submitted (SetBusy True t w) = submitted w"
    by (simp add: SetBusy_def updateKeepAlive_def)
  have "submitted (OnUpdate E now (SetBusy True t w)) = submitted w \<and>
      GUI (OnUpdate E now (SetBusy True t w)) = GUI (SetBusy True t w)"
    using s by (simp add: OnUpdate_when_busy[OF b] Req_def Println_def updateKeepAlive_def)
  then show ?thesis using k[of w] k[of "SetBusy True t w"] by simp
qed

section \<open>The request that cannot be made\<close>

text \<open>
  Claim C10. The claim has \<open>do\<close> return a response for every method and URL, and the
  comment above \<open>do\<close> promises the fake response whenever an error occurs. When
  \<open>http.NewRequest\<close> rejects the URL, \<open>panicOn\<close> panics instead and \<open>do\<close> returns nothing.
\<close>

theorem do_panics_when_request_cannot_be_made:
  "do example_http \<lparr>serverAddr = ''localhost:35360''\<rparr> ''OPEN'' '':'' None
     = Inl (Panic ''parse :: missing protocol scheme'')"
  by (simp add: do_def example_http_def)

end
